theory Spec2Isabelle
  imports Complex_Main "HOL-Library.AList"
begin

section \<open>Conventions of the embedding\<close>

text \<open>
  The Python sources compute with \<^verbatim>\<open>float\<close>. A finite float is modelled by the
  real number it denotes, and every arithmetic operation by the exact operation on the
  reals: rounding, infinities and a NaN that arrives as an input are outside the model.
  The one NaN the sources create on purpose, the sentinel \<^verbatim>\<open>float("nan")\<close> that fills
  the undefined entries of an indicator series, is \<open>None\<close> in a \<open>real option list\<close>.
  A \<^verbatim>\<open>datetime\<close> is the integer number of microseconds since the epoch, a
  \<^verbatim>\<open>timedelta\<close> an integer number of microseconds. Exceptions are values: a function
  that can raise returns \<open>py_error + 'a\<close>. Calls of the logger are left out.
\<close>

datatype py_error = ValueError string | IndexError | ZeroDivisionError

text \<open>Float division: Python raises when the divisor is zero.\<close>

definition py_div :: "real \<Rightarrow> real \<Rightarrow> py_error + real" where
  "py_div num den = (if den \<noteq> 0 then Inr (num / den) else Inl ZeroDivisionError)"

text \<open>Sequencing of computations that may raise.\<close>

definition bind_err :: "py_error + 'a \<Rightarrow> ('a \<Rightarrow> py_error + 'b) \<Rightarrow> py_error + 'b" where
  "bind_err m f = (case m of Inl e \<Rightarrow> Inl e | Inr x \<Rightarrow> f x)"

text \<open>
  Python's rule for an index \<open>i\<close> into a sequence of length \<open>len\<close>: positions
  \<open>0 .. len - 1\<close> are themselves, \<open>- len .. - 1\<close> count back from the end, and there
  is no position for anything else. Reading \<^verbatim>\<open>xs[i]\<close> and storing \<^verbatim>\<open>xs[i] = v\<close>
  raise IndexError where there is no position.
\<close>

definition py_index :: "nat \<Rightarrow> int \<Rightarrow> nat option" where
  "py_index len i =
     (if 0 \<le> i \<and> i < int len then Some (nat i)
      else if - int len \<le> i \<and> i < 0 then Some (nat (int len + i))
      else None)"

definition py_getitem :: "'a list \<Rightarrow> int \<Rightarrow> py_error + 'a" where
  "py_getitem xs i =
     (case py_index (length xs) i of None \<Rightarrow> Inl IndexError | Some k \<Rightarrow> Inr (xs ! k))"

definition py_setitem :: "'a list \<Rightarrow> int \<Rightarrow> 'a \<Rightarrow> py_error + 'a list" where
  "py_setitem xs i v =
     (case py_index (length xs) i of None \<Rightarrow> Inl IndexError | Some k \<Rightarrow> Inr (xs[k := v]))"

section \<open>Risk manager (risk/risk\_manager.py, config.py)\<close>

record RiskConfig =
  max_position_size :: real
  max_leverage :: int
  max_drawdown :: real
  take_profit :: real
  stop_loss :: real
  cooldown :: int

record PositionState =
  size_pos :: real
  entry_price :: real
  last_trade_time :: int

record RiskManager =
  position :: PositionState
  peak_equity :: real

text \<open>
  \<^verbatim>\<open>RiskManager.__init__\<close>: an empty position stamped with the clock reading of the
  construction, and a peak equity of 1.0.
\<close>

definition init_risk :: "int \<Rightarrow> RiskManager" where
  "init_risk clock =
     \<lparr>position = \<lparr>size_pos = 0, entry_price = 0, last_trade_time = clock\<rparr>, peak_equity = 1\<rparr>"

text \<open>
  \<^verbatim>\<open>update_equity\<close>. The peak is stored before the division, so it stays stored when
  the division raises. The result of a normal return says whether the drawdown warning
  was logged.
\<close>

definition update_equity :: "RiskConfig \<Rightarrow> real \<Rightarrow> RiskManager \<Rightarrow> (py_error + bool) \<times> RiskManager" where
  "update_equity cfg equity rm =
     (let rm' = (if equity > peak_equity rm then rm\<lparr>peak_equity := equity\<rparr> else rm)
      in (bind_err (py_div equity (peak_equity rm'))
            (\<lambda>q. let drawdown = 1 - q in Inr (drawdown > max_drawdown cfg)),
          rm'))"

text \<open>
  \<^verbatim>\<open>now = now or datetime.utcnow()\<close>: a datetime object is always truthy, so the
  argument is used whenever one is given, and the clock is read otherwise.
\<close>

definition now_or :: "int option \<Rightarrow> int \<Rightarrow> int" where
  "now_or now clock = (case now of Some t \<Rightarrow> t | None \<Rightarrow> clock)"

definition can_trade :: "RiskConfig \<Rightarrow> int option \<Rightarrow> int \<Rightarrow> RiskManager \<Rightarrow> bool" where
  "can_trade cfg now clock rm =
     (let now' = now_or now clock;
          elapsed = now' - last_trade_time (position rm)
      in elapsed \<ge> cooldown cfg)"

definition position_size :: "RiskConfig \<Rightarrow> real \<Rightarrow> real \<Rightarrow> real" where
  "position_size cfg equity signal_strength =
     (let sz = min \<bar>signal_strength\<bar> 1 * max_position_size cfg * equity
      in max (min sz (equity * max_position_size cfg)) 0)"

definition record_trade :: "real \<Rightarrow> real \<Rightarrow> int option \<Rightarrow> int \<Rightarrow> RiskManager \<Rightarrow> RiskManager" where
  "record_trade sz price now clock rm =
     (let now' = now_or now clock
      in rm\<lparr>position := \<lparr>size_pos = sz, entry_price = price, last_trade_time = now'\<rparr>\<rparr>)"

record StopLevels =
  sl_take_profit :: real
  sl_stop_loss :: real

definition stop_levels :: "RiskConfig \<Rightarrow> real \<Rightarrow> StopLevels" where
  "stop_levels cfg entry =
     \<lparr>sl_take_profit = entry * (1 + take_profit cfg),
      sl_stop_loss = entry * (1 - stop_loss cfg)\<rparr>"

text \<open>
  The public operations of a risk manager as a datatype of calls, each with the clock
  reading at the moment of the call, and the state after one call and after a sequence
  of calls. Only \<^verbatim>\<open>update_equity\<close> and \<^verbatim>\<open>record_trade\<close> assign to a field.
\<close>

datatype risk_call =
    UpdateEquity real
  | CanTrade "int option"
  | PositionSize real real
  | RecordTrade real real "int option"
  | StopLevelsCall real

fun risk_step :: "RiskConfig \<Rightarrow> RiskManager \<Rightarrow> risk_call \<times> int \<Rightarrow> RiskManager" where
  "risk_step cfg rm (UpdateEquity equity, clock) = snd (update_equity cfg equity rm)"
| "risk_step cfg rm (CanTrade now, clock) = rm"
| "risk_step cfg rm (PositionSize equity s, clock) = rm"
| "risk_step cfg rm (RecordTrade sz price now, clock) = record_trade sz price now clock rm"
| "risk_step cfg rm (StopLevelsCall entry, clock) = rm"

definition risk_run :: "RiskConfig \<Rightarrow> RiskManager \<Rightarrow> (risk_call \<times> int) list \<Rightarrow> RiskManager" where
  "risk_run cfg rm calls = foldl (risk_step cfg) rm calls"

section \<open>Technical indicators (analysis/technical.py)\<close>

text \<open>
  \<^verbatim>\<open>compute_rsi\<close>, the closure of \<^verbatim>\<open>relative_strength_index\<close>, with its two arguments.
\<close>

definition compute_rsi :: "real \<Rightarrow> real \<Rightarrow> py_error + real" where
  "compute_rsi avg_gain avg_loss =
     (if avg_loss = 0 then Inr 100
      else bind_err (py_div avg_gain avg_loss)
             (\<lambda>rs. bind_err (py_div 100 (1 + rs)) (\<lambda>q. Inr (100 - q))))"

text \<open>
  The lists \<^verbatim>\<open>gains\<close> and \<^verbatim>\<open>losses\<close>: a leading 0.0, then one entry for each
  \<^verbatim>\<open>idx in range(1, len(values))\<close>. Both reads are inside the list.
\<close>

definition rsi_gains :: "real list \<Rightarrow> real list" where
  "rsi_gains values =
     0 # map (\<lambda>idx. max (values ! idx - values ! (idx - 1)) 0) [1..<length values]"

definition rsi_losses :: "real list \<Rightarrow> real list" where
  "rsi_losses values =
     0 # map (\<lambda>idx. \<bar>min (values ! idx - values ! (idx - 1)) 0\<bar>) [1..<length values]"

text \<open>One pass of the smoothing loop, for one \<^verbatim>\<open>idx\<close>.\<close>

fun rsi_step ::
  "int \<Rightarrow> real list \<Rightarrow> real list \<Rightarrow> nat \<Rightarrow> real \<times> real \<times> real option list
   \<Rightarrow> py_error + real \<times> real \<times> real option list" where
  "rsi_step period gains losses idx (avg_gain, avg_loss, rsi_values) =
     bind_err (py_div (avg_gain * of_int (period - 1) + gains ! idx) (of_int period))
       (\<lambda>avg_gain'.
     bind_err (py_div (avg_loss * of_int (period - 1) + losses ! idx) (of_int period))
       (\<lambda>avg_loss'.
     bind_err (compute_rsi avg_gain' avg_loss')
       (\<lambda>r.
     bind_err (py_setitem rsi_values (int idx) (Some r))
       (\<lambda>rsi_values'. Inr (avg_gain', avg_loss', rsi_values')))))"

fun rsi_loop ::
  "int \<Rightarrow> real list \<Rightarrow> real list \<Rightarrow> nat list \<Rightarrow> real \<times> real \<times> real option list
   \<Rightarrow> py_error + real \<times> real \<times> real option list" where
  "rsi_loop period gains losses [] st = Inr st"
| "rsi_loop period gains losses (idx # idxs) st =
     (case rsi_step period gains losses idx st of
        Inl e \<Rightarrow> Inl e
      | Inr st' \<Rightarrow> rsi_loop period gains losses idxs st')"

definition relative_strength_index :: "real list \<Rightarrow> int \<Rightarrow> py_error + real option list" where
  "relative_strength_index values period =
     (if period \<le> 0 then Inl (ValueError ''Period must be positive'')
      else if int (length values) < period + 1
        then Inl (ValueError ''Not enough data for RSI calculation'')
      else
        let gains = rsi_gains values;
            losses = rsi_losses values
        in bind_err (py_div (sum_list (take (nat period) (drop 1 gains))) (of_int period))
             (\<lambda>avg_gain.
           bind_err (py_div (sum_list (take (nat period) (drop 1 losses))) (of_int period))
             (\<lambda>avg_loss.
           let rsi_values = replicate (length values) None
           in bind_err (compute_rsi avg_gain avg_loss)
                (\<lambda>r.
              bind_err (py_setitem rsi_values period (Some r))
                (\<lambda>rsi_values'.
              bind_err (rsi_loop period gains losses [nat (period + 1)..<length values]
                          (avg_gain, avg_loss, rsi_values'))
                (\<lambda>(avg_gain', avg_loss', rsi_values''). Inr rsi_values''))))))"

text \<open>
  \<^verbatim>\<open>average_true_range\<close>. The first true range reads \<^verbatim>\<open>highs[0]\<close> and
  \<^verbatim>\<open>lows[0]\<close>; the reads of the loop over \<^verbatim>\<open>range(1, len(highs))\<close> are inside the
  three lists, which have one length by then.
\<close>

definition true_ranges_tail :: "real list \<Rightarrow> real list \<Rightarrow> real list \<Rightarrow> real list" where
  "true_ranges_tail highs lows closes =
     map (\<lambda>idx. max (max (highs ! idx - lows ! idx) \<bar>highs ! idx - closes ! (idx - 1)\<bar>)
                     \<bar>lows ! idx - closes ! (idx - 1)\<bar>)
         [1..<length highs]"

fun atr_step ::
  "int \<Rightarrow> real list \<Rightarrow> nat \<Rightarrow> real \<times> real option list \<Rightarrow> py_error + real \<times> real option list" where
  "atr_step period true_ranges idx (atr, atr_values) =
     bind_err (py_div (atr * of_int (period - 1) + true_ranges ! idx) (of_int period))
       (\<lambda>atr'.
     bind_err (py_setitem atr_values (int idx) (Some atr'))
       (\<lambda>atr_values'. Inr (atr', atr_values')))"

fun atr_loop ::
  "int \<Rightarrow> real list \<Rightarrow> nat list \<Rightarrow> real \<times> real option list \<Rightarrow> py_error + real \<times> real option list" where
  "atr_loop period true_ranges [] st = Inr st"
| "atr_loop period true_ranges (idx # idxs) st =
     (case atr_step period true_ranges idx st of
        Inl e \<Rightarrow> Inl e
      | Inr st' \<Rightarrow> atr_loop period true_ranges idxs st')"

definition average_true_range ::
  "real list \<Rightarrow> real list \<Rightarrow> real list \<Rightarrow> int \<Rightarrow> py_error + real option list" where
  "average_true_range highs lows closes period =
     (if \<not> (length highs = length lows \<and> length lows = length closes)
        then Inl (ValueError ''Input arrays must have the same length'')
      else if period \<le> 0 then Inl (ValueError ''Period must be positive'')
      else
        bind_err (py_getitem highs 0) (\<lambda>h0.
        bind_err (py_getitem lows 0) (\<lambda>l0.
        let true_ranges = (h0 - l0) # true_ranges_tail highs lows closes;
            atr_values = replicate (length highs) None
        in bind_err (py_div (sum_list (take (nat period) true_ranges)) (of_int period))
             (\<lambda>atr.
           bind_err (py_setitem atr_values (period - 1) (Some atr))
             (\<lambda>atr_values'.
           bind_err (atr_loop period true_ranges [nat period..<length true_ranges]
                       (atr, atr_values'))
             (\<lambda>(atr', atr_values''). Inr atr_values''))))))"

section \<open>Fundamental scorer (analysis/fundamental.py)\<close>

text \<open>
  The builtins \<^verbatim>\<open>min\<close> and \<^verbatim>\<open>max\<close> over a list: they raise on an empty one, and
  otherwise run over the list from its first element.
\<close>

fun py_min :: "real list \<Rightarrow> py_error + real" where
  "py_min [] = Inl (ValueError ''min() arg is an empty sequence'')"
| "py_min (x # xs) = Inr (fold min xs x)"

fun py_max :: "real list \<Rightarrow> py_error + real" where
  "py_max [] = Inl (ValueError ''max() arg is an empty sequence'')"
| "py_max (x # xs) = Inr (fold max xs x)"

definition normalize_metric :: "real list \<Rightarrow> py_error + real" where
  "normalize_metric values =
     (if values = [] then Inr 0
      else
        bind_err (py_min values) (\<lambda>minimum.
        bind_err (py_max values) (\<lambda>maximum.
        if maximum = minimum then Inr 0
        else
          bind_err (py_getitem values (- 1)) (\<lambda>latest.
          bind_err (py_div (latest - minimum) (maximum - minimum)) (\<lambda>q.
          Inr (2 * q - 1))))))"

section \<open>Sentiment aggregator (analysis/sentiment.py)\<close>

record SentimentReading =
  source :: string
  score :: real

definition exponential_smoothing :: "real \<Rightarrow> real \<Rightarrow> real \<Rightarrow> real" where
  "exponential_smoothing previous current alpha = alpha * current + (1 - alpha) * previous"

text \<open>
  The dictionary \<^verbatim>\<open>sentiment_by_source\<close> is an association list in insertion order:
  storing under a key that is present replaces its value in place, storing under a new
  key appends, as a Python dict does.
\<close>

definition sentiment_step ::
  "real \<Rightarrow> (string \<times> real) list \<Rightarrow> SentimentReading \<Rightarrow> (string \<times> real) list" where
  "sentiment_step alpha sentiment_by_source reading =
     (let prev = (case map_of sentiment_by_source (source reading) of
                    Some p \<Rightarrow> p | None \<Rightarrow> 0)
      in AList.update (source reading) (exponential_smoothing prev (score reading) alpha)
           sentiment_by_source)"

definition aggregate_sentiment :: "SentimentReading list \<Rightarrow> real \<Rightarrow> py_error + real" where
  "aggregate_sentiment readings alpha =
     (let sentiment_by_source = foldl (sentiment_step alpha) [] readings
      in if sentiment_by_source = [] then Inr 0
         else py_div (sum_list (map snd sentiment_by_source))
                     (real (length sentiment_by_source)))"

section \<open>Signal fusion (strategy/hft\_strategy.py)\<close>

record IndicatorResult =
  value_ir :: real
  signal :: real

record StrategyContext =
  technical :: IndicatorResult
  fundamental :: real
  sentiment :: real

definition composite_signal :: "StrategyContext \<Rightarrow> real" where
  "composite_signal ctx =
     max (min (signal (technical ctx) * 0.5 + fundamental ctx * 0.3 + sentiment ctx * 0.2) 1.0)
         (- 1.0)"

text \<open>The clamp of the specification, written from its words: \<open>x\<close> cut to \<open>[lo, hi]\<close>.\<close>

definition clamp_spec :: "real \<Rightarrow> real \<Rightarrow> real \<Rightarrow> real" where
  "clamp_spec x lo hi = (if x < lo then lo else if hi < x then hi else x)"

section \<open>Execution simulator (execution/execution\_engine.py)\<close>

record ExecutionConfig =
  order_type :: string
  max_slippage :: real
  order_timeout :: int

record Order =
  symbol :: string
  side :: string
  quantity :: real
  price :: real
  ord_type :: string
  timestamp :: int

record ExecutionReport =
  order :: Order
  status :: string
  executed_quantity :: real
  avg_price :: real

text \<open>
  \<^verbatim>\<open>random.uniform(a, b)\<close> is \<^verbatim>\<open>a + (b - a) * random()\<close>; the draw of
  \<^verbatim>\<open>random()\<close>, a number in \<open>[0, 1)\<close>, is an argument of the model.
\<close>

definition uniform :: "real \<Rightarrow> real \<Rightarrow> real \<Rightarrow> real" where
  "uniform a b draw = a + (b - a) * draw"

text \<open>
  \<^verbatim>\<open>send_order\<close>, with the clock reading for the order's timestamp and the two draws
  of the random source, in the order the source makes them.
\<close>

definition send_order ::
  "ExecutionConfig \<Rightarrow> bool \<Rightarrow> string \<Rightarrow> string \<Rightarrow> real \<Rightarrow> real \<Rightarrow> int \<Rightarrow> real \<Rightarrow> real
   \<Rightarrow> ExecutionReport" where
  "send_order cfg dry symb sd qty prc clock draw1 draw2 =
     (let ordr = \<lparr>symbol = symb, side = sd, quantity = qty, price = prc,
                  ord_type = order_type cfg, timestamp = clock\<rparr>
      in if dry then
           (let executed_qty = qty * uniform 0.9 1.0 draw1;
                slippage = prc * uniform (- max_slippage cfg) (max_slippage cfg) draw2;
                avg = prc + slippage;
                st = (if executed_qty = qty then ''FILLED'' else ''PARTIALLY_FILLED'')
            in \<lparr>order = ordr, status = st, executed_quantity = executed_qty, avg_price = avg\<rparr>)
         else
           \<lparr>order = ordr, status = ''NEW'', executed_quantity = 0, avg_price = prc\<rparr>)"

section \<open>Decision orchestrator (trader.py)\<close>

record MarketSnapshot =
  snap_symbol :: string
  prices :: "real list"
  highs :: "real list"
  lows :: "real list"
  closes :: "real list"

text \<open>The part of \<^verbatim>\<open>AgentConfig\<close> that a decision cycle reads.\<close>

record AgentConfig =
  risk :: RiskConfig
  execution :: ExecutionConfig
  dry_run :: bool

text \<open>
  What one cycle reads from outside: three clock readings (\<^verbatim>\<open>can_trade()\<close>, the
  order's timestamp, \<^verbatim>\<open>record_trade(...)\<close>, each called without \<^verbatim>\<open>now\<close>) and the
  two random draws of the simulated fill.
\<close>

record CycleEnv =
  clock_can_trade :: int
  clock_order :: int
  clock_record :: int
  draw_fill :: real
  draw_slippage :: real

text \<open>
  What a cycle that trades did: the report of \<^verbatim>\<open>send_order\<close>, the two arguments it
  passed to \<^verbatim>\<open>record_trade\<close>, the argument it passed to \<^verbatim>\<open>stop_levels\<close> and the
  levels it got.
\<close>

record TradeLog =
  report :: ExecutionReport
  recorded_size :: real
  recorded_price :: real
  stops_entry :: real
  stops :: StopLevels

datatype cycle_result = CooldownActive | SignalTooWeak | Traded TradeLog

text \<open>
  \<^verbatim>\<open>AdvancedCryptoTradingAgent.trade\<close> from the point where the snapshot and the
  strategy context have been built (\<^verbatim>\<open>collect_market_data\<close> is the exchange client,
  \<^verbatim>\<open>build_context\<close> the pipeline of section 4.4). It returns what the cycle did and
  the risk manager after it.
\<close>

definition trade ::
  "AgentConfig \<Rightarrow> CycleEnv \<Rightarrow> MarketSnapshot \<Rightarrow> StrategyContext \<Rightarrow> RiskManager
   \<Rightarrow> py_error + cycle_result \<times> RiskManager" where
  "trade cfg env snapshot ctx rm =
     (let sig = composite_signal ctx
      in if \<not> can_trade (risk cfg) None (clock_can_trade env) rm then Inr (CooldownActive, rm)
         else
           let equity = 1.0;
               psize = position_size (risk cfg) equity sig
           in if psize = 0.0 then Inr (SignalTooWeak, rm)
              else
                let sd = (if sig > 0 then ''BUY'' else ''SELL'')
                in bind_err (py_getitem (prices snapshot) (- 1)) (\<lambda>prc.
                   bind_err (py_div psize prc) (\<lambda>qty.
                   let rep = send_order (execution cfg) (dry_run cfg) (snap_symbol snapshot)
                               sd qty prc (clock_order env) (draw_fill env) (draw_slippage env);
                       rsize = executed_quantity rep * prc;
                       rprice = avg_price rep;
                       rm' = record_trade rsize rprice None (clock_record env) rm;
                       lv = stop_levels (risk cfg) (avg_price rep)
                   in Inr (Traded \<lparr>report = rep, recorded_size = rsize,
                                    recorded_price = rprice, stops_entry = avg_price rep,
                                    stops = lv\<rparr>,
                           rm'))))"

text \<open>
  The same cycle from the statement \<^verbatim>\<open>side = "BUY" if signal > 0 else "SELL"\<close> to its
  end, as a function of the two local variables that are live at that statement: the
  composite signal and the position size.
\<close>

definition trade_from_side ::
  "AgentConfig \<Rightarrow> CycleEnv \<Rightarrow> MarketSnapshot \<Rightarrow> real \<Rightarrow> real \<Rightarrow> RiskManager
   \<Rightarrow> py_error + cycle_result \<times> RiskManager" where
  "trade_from_side cfg env snapshot sig psize rm =
     (let sd = (if sig > 0 then ''BUY'' else ''SELL'')
      in bind_err (py_getitem (prices snapshot) (- 1)) (\<lambda>prc.
         bind_err (py_div psize prc) (\<lambda>qty.
         let rep = send_order (execution cfg) (dry_run cfg) (snap_symbol snapshot)
                     sd qty prc (clock_order env) (draw_fill env) (draw_slippage env);
             rsize = executed_quantity rep * prc;
             rprice = avg_price rep;
             rm' = record_trade rsize rprice None (clock_record env) rm;
             lv = stop_levels (risk cfg) (avg_price rep)
         in Inr (Traded \<lparr>report = rep, recorded_size = rsize,
                          recorded_price = rprice, stops_entry = avg_price rep,
                          stops = lv\<rparr>,
                 rm'))))"

text \<open>
  The default configuration of config.py; the cooldown of five minutes and the order
  timeout of ten seconds are in microseconds.
\<close>

definition default_risk_config :: RiskConfig where
  "default_risk_config =
     \<lparr>max_position_size = 0.15, max_leverage = 5, max_drawdown = 0.03,
      take_profit = 0.05, stop_loss = 0.02, cooldown = 300000000\<rparr>"

definition default_execution_config :: ExecutionConfig where
  "default_execution_config =
     \<lparr>order_type = ''limit'', max_slippage = 0.0005, order_timeout = 10000000\<rparr>"

definition default_agent_config :: AgentConfig where
  "default_agent_config =
     \<lparr>risk = default_risk_config, execution = default_execution_config, dry_run = True\<rparr>"

section \<open>Recommendation builder (web/dashboard.py)\<close>

text \<open>
  The ATR statistic of \<^verbatim>\<open>RecommendationEngine.build_recommendation\<close>: the
  \<^verbatim>\<open>try\<close> block around \<^verbatim>\<open>average_true_range\<close>, called with the default period 14,
  and its handler, which catches ValueError and nothing else. \<open>None\<close> is NaN.
\<close>

definition build_recommendation_atr :: "MarketSnapshot \<Rightarrow> py_error + real option" where
  "build_recommendation_atr snapshot =
     (case average_true_range (highs snapshot) (lows snapshot) (closes snapshot) 14 of
        Inr atr_values \<Rightarrow>
          (if atr_values \<noteq> [] then py_getitem atr_values (- 1) else Inr None)
      | Inl (ValueError msg) \<Rightarrow> Inr None
      | Inl e \<Rightarrow> Inl e)"

section \<open>Example inputs\<close>

text \<open>
  One cycle under the default configuration: the cooldown has just elapsed, the latest
  close is 100, both random draws are 0 (the fill is 0.9 of the order, the slippage is
  \<open>- max_slippage\<close>), and the context has a composite signal of 0.2 (long) or
  \<open>- 0.2\<close> (short).
\<close>

definition example_env :: CycleEnv where
  "example_env =
     \<lparr>clock_can_trade = 300000000, clock_order = 300000001, clock_record = 300000002,
      draw_fill = 0, draw_slippage = 0\<rparr>"

definition example_snapshot :: MarketSnapshot where
  "example_snapshot =
     \<lparr>snap_symbol = ''BTCUSDT'', prices = [99, 100], highs = [99.5, 100.5],
      lows = [98.5, 99.5], closes = [99, 100]\<rparr>"

definition example_context :: "real \<Rightarrow> StrategyContext" where
  "example_context technical_signal =
     \<lparr>technical = \<lparr>value_ir = 0, signal = technical_signal\<rparr>, fundamental = 0,
      sentiment = 0\<rparr>"

section \<open>Properties of the risk manager\<close>

lemma update_equity_peak: "peak_equity rm \<le> peak_equity (snd (update_equity cfg equity rm))"
  by (simp add: update_equity_def Let_def)

lemma risk_step_peak: "peak_equity rm \<le> peak_equity (risk_step cfg rm c)"
proof (cases c)
  case (Pair call clock)
  then show ?thesis
    by (cases call) (simp_all add: update_equity_peak record_trade_def Let_def)
qed

text \<open>
  C5. The peak equity never decreases: a call of \<^verbatim>\<open>update_equity\<close> with any argument
  leaves a peak at least as large as the one before it, and so does every other call of
  the risk manager, at every point of every sequence of calls.
\<close>

theorem peak_equity_monotone:
  "peak_equity rm \<le> peak_equity (snd (update_equity cfg equity rm))
   \<and> peak_equity (risk_run cfg rm calls) \<le> peak_equity (risk_run cfg rm (calls @ [c]))
   \<and> peak_equity rm \<le> peak_equity (risk_run cfg rm calls)"
proof (intro conjI)
  show "peak_equity rm \<le> peak_equity (snd (update_equity cfg equity rm))"
    by (rule update_equity_peak)
  show "peak_equity (risk_run cfg rm calls) \<le> peak_equity (risk_run cfg rm (calls @ [c]))"
    by (simp add: risk_run_def risk_step_peak)
  show "peak_equity rm \<le> peak_equity (risk_run cfg rm calls)"
  proof (induction calls rule: rev_induct)
    case Nil
    show ?case by (simp add: risk_run_def)
  next
    case (snoc c cs)
    have "peak_equity (risk_run cfg rm cs) \<le> peak_equity (risk_run cfg rm (cs @ [c]))"
      by (simp add: risk_run_def risk_step_peak)
    with snoc show ?case by linarith
  qed
qed

text \<open>
  C6. \<^verbatim>\<open>can_trade(now)\<close> is true exactly when \<open>now - last_trade_time \<ge> cooldown\<close>, and
  it changes no state. Hence, with a strictly positive cooldown, it is false at the
  timestamp given to the \<^verbatim>\<open>record_trade\<close> just before it, and true at every timestamp
  at least one cooldown later than that trade time.
\<close>

theorem can_trade_cooldown:
  "(can_trade cfg (Some now) clock rm \<longleftrightarrow> now - last_trade_time (position rm) \<ge> cooldown cfg)
   \<and> risk_step cfg rm (CanTrade (Some now), clock) = rm
   \<and> (0 < cooldown cfg \<longrightarrow>
        \<not> can_trade cfg (Some t) clock' (record_trade sz p (Some t) clock rm))
   \<and> (cooldown cfg \<le> now' - t \<longrightarrow>
        can_trade cfg (Some now') clock' (record_trade sz p (Some t) clock rm))"
  by (simp add: can_trade_def record_trade_def now_or_def)

theorem can_trade_cooldown_witness:
  "0 < cooldown default_risk_config
   \<and> \<not> can_trade default_risk_config (Some 1000) 0
         (record_trade 0.027 99.95 (Some 1000) 0 (init_risk 0))
   \<and> cooldown default_risk_config \<le> 300001000 - 1000
   \<and> can_trade default_risk_config (Some 300001000) 0
         (record_trade 0.027 99.95 (Some 1000) 0 (init_risk 0))"
  using can_trade_cooldown [where cfg = default_risk_config and now = 1000 and clock = 0
      and rm = "init_risk 0" and t = 1000 and clock' = 0 and sz = "0.027" and p = "99.95"
      and now' = 300001000]
  by (simp add: default_risk_config_def)

section \<open>Position sizing\<close>

lemma position_size_unfold:
  "position_size cfg equity s =
     max (min (min \<bar>s\<bar> 1 * (equity * max_position_size cfg)) (equity * max_position_size cfg)) 0"
  by (simp add: position_size_def Let_def mult.assoc mult.commute)

lemma scaled_in_range:
  fixes t h :: real
  assumes "0 \<le> t" "t \<le> 1" "0 \<le> h"
  shows "0 \<le> t * h" "t * h \<le> h"
  using assms by (simp_all add: mult_left_le_one_le)

lemma scaled_negative:
  fixes t h :: real
  assumes "0 \<le> t" "h < 0"
  shows "t * h \<le> 0"
  using assms by (simp add: mult_nonneg_nonpos)

text \<open>
  C7. For every equity and signal strength \<^verbatim>\<open>position_size\<close> returns
  \<open>min |s| 1 * max_position_size * equity\<close> cut to \<open>[0, equity * max_position_size]\<close>,
  that is \<open>max (min (min |s| 1 * max_position_size * equity) (equity * max_position_size)) 0\<close>.
  Where the interval is not empty the result is \<open>min |s| 1 * max_position_size * equity\<close>
  itself and lies in the interval; where \<open>equity * max_position_size\<close> is negative the
  result is 0. For equity 1.0 and signal strength 2.0, under a position limit that is not
  negative, the result is exactly \<open>max_position_size * equity\<close>.
\<close>

theorem position_size_clamped:
  "position_size cfg equity s =
     max (min (min \<bar>s\<bar> 1 * max_position_size cfg * equity) (equity * max_position_size cfg)) 0
   \<and> (0 \<le> equity * max_position_size cfg \<longrightarrow>
        position_size cfg equity s = min \<bar>s\<bar> 1 * max_position_size cfg * equity
        \<and> position_size cfg equity s =
            clamp_spec (min \<bar>s\<bar> 1 * max_position_size cfg * equity) 0 (equity * max_position_size cfg)
        \<and> 0 \<le> position_size cfg equity s
        \<and> position_size cfg equity s \<le> equity * max_position_size cfg)
   \<and> (equity * max_position_size cfg < 0 \<longrightarrow> position_size cfg equity s = 0)
   \<and> (0 \<le> max_position_size cfg \<longrightarrow> position_size cfg 1 2 = max_position_size cfg * 1)"
proof -
  define h where "h = equity * max_position_size cfg"
  define t where "t = min \<bar>s\<bar> 1"
  have t: "0 \<le> t" "t \<le> 1" by (simp_all add: t_def)
  have sz: "min \<bar>s\<bar> 1 * max_position_size cfg * equity = t * h"
    by (simp add: t_def h_def)
  have ps: "position_size cfg equity s = max (min (t * h) h) 0"
    by (simp add: position_size_unfold t_def h_def)
  have a: "position_size cfg equity s = t * h \<and> position_size cfg equity s = clamp_spec (t * h) 0 h
      \<and> 0 \<le> position_size cfg equity s \<and> position_size cfg equity s \<le> h" if "0 \<le> h"
    using scaled_in_range [OF t that] by (simp add: ps clamp_spec_def)
  have b: "position_size cfg equity s = 0" if "h < 0"
    using scaled_negative [OF t(1) that] that by (simp add: ps)
  have c: "position_size cfg 1 2 = max_position_size cfg * 1" if "0 \<le> max_position_size cfg"
    using that by (simp add: position_size_def)
  show ?thesis
    unfolding sz h_def [symmetric] using ps a b c by blast
qed

theorem position_size_clamped_witness:
  "0 \<le> (1::real) * max_position_size default_risk_config
   \<and> 0 \<le> max_position_size default_risk_config
   \<and> position_size default_risk_config 1 2 = 0.15
   \<and> (- 1 :: real) * max_position_size default_risk_config < 0
   \<and> position_size default_risk_config (- 1) 2 = 0"
  using position_size_clamped [of default_risk_config 1 2]
    position_size_clamped [of default_risk_config "- 1" 2]
  by (simp add: default_risk_config_def)

section \<open>Properties of signal fusion\<close>

text \<open>
  C2. For every strategy context the composite signal lies in \<open>[-1, 1]\<close> and is the
  weighted sum \<open>technical.signal * 0.5 + fundamental * 0.3 + sentiment * 0.2\<close> clamped to
  that interval.
\<close>

theorem composite_signal_clamped:
  "- 1 \<le> composite_signal ctx \<and> composite_signal ctx \<le> 1
   \<and> composite_signal ctx =
       clamp_spec (signal (technical ctx) * 0.5 + fundamental ctx * 0.3 + sentiment ctx * 0.2)
         (- 1) 1"
  by (simp add: composite_signal_def clamp_spec_def max_def min_def)

section \<open>Neutral values at the edge cases\<close>

lemma py_min_replicate: "py_min (replicate (Suc m) c) = Inr c"
proof -
  have "(min c ^^ m) c = c" by (induction m) simp_all
  then show ?thesis by simp
qed

lemma py_max_replicate: "py_max (replicate (Suc m) c) = Inr c"
proof -
  have "(max c ^^ m) c = c" by (induction m) simp_all
  then show ?thesis by simp
qed

lemma normalize_metric_replicate: "normalize_metric (replicate n c) = Inr 0"
proof (cases n)
  case 0
  then show ?thesis by (simp add: normalize_metric_def)
next
  case (Suc m)
  then show ?thesis
    by (simp only: normalize_metric_def py_min_replicate py_max_replicate bind_err_def)
       simp
qed

text \<open>
  C4. None of the three edge cases raises: \<^verbatim>\<open>normalize_metric\<close> returns 0 for the
  empty series and for every constant series, \<^verbatim>\<open>compute_rsi\<close> returns 100 when the
  average loss is 0, and \<^verbatim>\<open>aggregate_sentiment\<close> returns 0 for no readings.
\<close>

theorem neutral_values:
  "normalize_metric [] = Inr 0
   \<and> normalize_metric (replicate n c) = Inr 0
   \<and> compute_rsi avg_gain 0 = Inr 100
   \<and> aggregate_sentiment [] alpha = Inr 0"
proof (intro conjI)
  show "normalize_metric [] = Inr 0" by (simp add: normalize_metric_def)
  show "normalize_metric (replicate n c) = Inr 0" by (rule normalize_metric_replicate)
  show "compute_rsi avg_gain 0 = Inr 100" by (simp add: compute_rsi_def)
  show "aggregate_sentiment [] alpha = Inr 0" by (simp add: aggregate_sentiment_def)
qed

section \<open>Properties of a decision cycle\<close>

text \<open>What a cycle that returns a trade has done, step by step.\<close>

lemma trade_Traded:
  assumes "trade cfg env snapshot ctx rm = Inr (Traded lg, rm')"
  shows "\<exists>prc qty rep.
           can_trade (risk cfg) None (clock_can_trade env) rm
         \<and> position_size (risk cfg) 1 (composite_signal ctx) \<noteq> 0
         \<and> py_getitem (prices snapshot) (- 1) = Inr prc
         \<and> py_div (position_size (risk cfg) 1 (composite_signal ctx)) prc = Inr qty
         \<and> rep = send_order (execution cfg) (dry_run cfg) (snap_symbol snapshot)
                   (if composite_signal ctx > 0 then ''BUY'' else ''SELL'') qty prc
                   (clock_order env) (draw_fill env) (draw_slippage env)
         \<and> lg = \<lparr>report = rep, recorded_size = executed_quantity rep * prc,
                   recorded_price = avg_price rep, stops_entry = avg_price rep,
                   stops = stop_levels (risk cfg) (avg_price rep)\<rparr>
         \<and> rm' = record_trade (executed_quantity rep * prc) (avg_price rep) None
                   (clock_record env) rm"
proof -
  let ?ps = "position_size (risk cfg) 1 (composite_signal ctx)"
  from assms have ct: "can_trade (risk cfg) None (clock_can_trade env) rm"
    by (auto simp: trade_def Let_def split: if_splits)
  from assms ct have nz: "?ps \<noteq> 0"
    by (auto simp: trade_def Let_def split: if_splits)
  from assms ct nz obtain prc where
    p: "py_getitem (prices snapshot) (- 1) = Inr prc"
    by (cases "py_getitem (prices snapshot) (- 1)") (simp_all add: trade_def Let_def bind_err_def)
  from assms ct nz p obtain qty where
    q: "py_div ?ps prc = Inr qty"
    by (cases "py_div ?ps prc") (simp_all add: trade_def Let_def bind_err_def)
  from assms ct nz p q show ?thesis
    by (simp add: trade_def Let_def bind_err_def)
qed

lemma py_getitem_last:
  assumes "py_getitem xs (- 1) = Inr x"
  shows "xs \<noteq> [] \<and> x = last xs"
proof (cases xs rule: rev_cases)
  case Nil
  with assms show ?thesis by (simp add: py_getitem_def py_index_def)
next
  case (snoc ys y)
  have "py_index (length (ys @ [y])) (- 1) = Some (length ys)"
    by (simp add: py_index_def)
  with assms snoc show ?thesis by (simp add: py_getitem_def)
qed

lemma send_order_order:
  "order (send_order ecfg dry symb sd qty prc clock d1 d2) =
     \<lparr>symbol = symb, side = sd, quantity = qty, price = prc,
      ord_type = order_type ecfg, timestamp = clock\<rparr>"
  by (simp add: send_order_def Let_def)

lemmas trade_eval_defs =
  trade_def composite_signal_def can_trade_def now_or_def init_risk_def
  position_size_def default_agent_config_def default_risk_config_def
  default_execution_config_def py_getitem_def py_index_def py_div_def bind_err_def
  send_order_def uniform_def record_trade_def stop_levels_def Let_def
  example_env_def example_snapshot_def example_context_def

lemma trade_example_buy:
  "trade default_agent_config example_env example_snapshot (example_context 0.4) (init_risk 0)
   = Inr (Traded
           \<lparr>report =
              \<lparr>order = \<lparr>symbol = ''BTCUSDT'', side = ''BUY'', quantity = 0.0003, price = 100,
                         ord_type = ''limit'', timestamp = 300000001\<rparr>,
               status = ''PARTIALLY_FILLED'', executed_quantity = 0.00027,
               avg_price = 99.95\<rparr>,
            recorded_size = 0.027, recorded_price = 99.95, stops_entry = 99.95,
            stops = \<lparr>sl_take_profit = 104.9475, sl_stop_loss = 97.951\<rparr>\<rparr>,
          \<lparr>position = \<lparr>size_pos = 0.027, entry_price = 99.95, last_trade_time = 300000002\<rparr>,
           peak_equity = 1\<rparr>)"
  by (simp add: trade_eval_defs)

lemma trade_example_sell:
  "trade default_agent_config example_env example_snapshot (example_context (- 0.4)) (init_risk 0)
   = Inr (Traded
           \<lparr>report =
              \<lparr>order = \<lparr>symbol = ''BTCUSDT'', side = ''SELL'', quantity = 0.0003, price = 100,
                         ord_type = ''limit'', timestamp = 300000001\<rparr>,
               status = ''PARTIALLY_FILLED'', executed_quantity = 0.00027,
               avg_price = 99.95\<rparr>,
            recorded_size = 0.027, recorded_price = 99.95, stops_entry = 99.95,
            stops = \<lparr>sl_take_profit = 104.9475, sl_stop_loss = 97.951\<rparr>\<rparr>,
          \<lparr>position = \<lparr>size_pos = 0.027, entry_price = 99.95, last_trade_time = 300000002\<rparr>,
           peak_equity = 1\<rparr>)"
  by (simp add: trade_eval_defs)

text \<open>
  C1, as amended. In a cycle that trades, \<^verbatim>\<open>record_trade\<close> is called with a size of the
  executed quantity times the price of the order, which is the latest close
  \<^verbatim>\<open>snapshot.prices[-1]\<close>, and with the average fill price as its price; the stop
  levels are computed from the average fill price. The position stored by the cycle holds
  these values.
\<close>

theorem trade_records_requested_price:
  assumes "trade cfg env snapshot ctx rm = Inr (Traded lg, rm')"
  shows "prices snapshot \<noteq> []
       \<and> price (order (report lg)) = last (prices snapshot)
       \<and> recorded_size lg = executed_quantity (report lg) * price (order (report lg))
       \<and> recorded_price lg = avg_price (report lg)
       \<and> stops_entry lg = avg_price (report lg)
       \<and> stops lg = stop_levels (risk cfg) (avg_price (report lg))
       \<and> position rm' =
           \<lparr>size_pos = executed_quantity (report lg) * price (order (report lg)),
            entry_price = avg_price (report lg), last_trade_time = clock_record env\<rparr>"
proof -
  from trade_Traded [OF assms] obtain prc qty rep where
    p: "py_getitem (prices snapshot) (- 1) = Inr prc"
    and rep: "rep = send_order (execution cfg) (dry_run cfg) (snap_symbol snapshot)
                   (if composite_signal ctx > 0 then ''BUY'' else ''SELL'') qty prc
                   (clock_order env) (draw_fill env) (draw_slippage env)"
    and lg: "lg = \<lparr>report = rep, recorded_size = executed_quantity rep * prc,
                   recorded_price = avg_price rep, stops_entry = avg_price rep,
                   stops = stop_levels (risk cfg) (avg_price rep)\<rparr>"
    and rm': "rm' = record_trade (executed_quantity rep * prc) (avg_price rep) None
                   (clock_record env) rm"
    by blast
  from p have ne: "prices snapshot \<noteq> []" and prc: "prc = last (prices snapshot)"
    using py_getitem_last [of "prices snapshot" prc] by simp_all
  have po: "price (order rep) = prc"
    by (simp add: rep send_order_order)
  show ?thesis
    using ne prc po by (simp add: lg rm' record_trade_def now_or_def)
qed

theorem trade_records_requested_price_witness:
  "trade default_agent_config example_env example_snapshot (example_context 0.4) (init_risk 0)
   = Inr (Traded
           \<lparr>report =
              \<lparr>order = \<lparr>symbol = ''BTCUSDT'', side = ''BUY'', quantity = 0.0003, price = 100,
                         ord_type = ''limit'', timestamp = 300000001\<rparr>,
               status = ''PARTIALLY_FILLED'', executed_quantity = 0.00027,
               avg_price = 99.95\<rparr>,
            recorded_size = 0.027, recorded_price = 99.95, stops_entry = 99.95,
            stops = \<lparr>sl_take_profit = 104.9475, sl_stop_loss = 97.951\<rparr>\<rparr>,
          \<lparr>position = \<lparr>size_pos = 0.027, entry_price = 99.95, last_trade_time = 300000002\<rparr>,
           peak_equity = 1\<rparr>)
   \<and> (0.027 :: real) = 0.00027 * 100
   \<and> (100 :: real) = last (prices example_snapshot)
   \<and> stop_levels (risk default_agent_config) 99.95
       = \<lparr>sl_take_profit = 104.9475, sl_stop_loss = 97.951\<rparr>"
  using trade_records_requested_price [OF trade_example_buy] trade_example_buy
  by simp

text \<open>
  C1 as stated fails: under the default configuration, with a latest close of 100 and a
  fill at 99.95, the recorded size is \<open>0.00027 * 100 = 0.027\<close>, not the executed
  quantity times the average fill price, \<open>0.00027 * 99.95\<close>.
\<close>

theorem trade_size_counterexample:
  "trade default_agent_config example_env example_snapshot (example_context 0.4) (init_risk 0)
   = Inr (Traded
           \<lparr>report =
              \<lparr>order = \<lparr>symbol = ''BTCUSDT'', side = ''BUY'', quantity = 0.0003, price = 100,
                         ord_type = ''limit'', timestamp = 300000001\<rparr>,
               status = ''PARTIALLY_FILLED'', executed_quantity = 0.00027,
               avg_price = 99.95\<rparr>,
            recorded_size = 0.027, recorded_price = 99.95, stops_entry = 99.95,
            stops = \<lparr>sl_take_profit = 104.9475, sl_stop_loss = 97.951\<rparr>\<rparr>,
          \<lparr>position = \<lparr>size_pos = 0.027, entry_price = 99.95, last_trade_time = 300000002\<rparr>,
           peak_equity = 1\<rparr>)
   \<and> (0.027 :: real) \<noteq> 0.00027 * 99.95"
  using trade_example_buy by simp

text \<open>
  The cycle is its two early returns followed by \<open>trade_from_side\<close>, run on the
  composite signal and the position size of the cycle.
\<close>

lemma trade_reaches_side:
  "trade cfg env snapshot ctx rm =
     (if \<not> can_trade (risk cfg) None (clock_can_trade env) rm then Inr (CooldownActive, rm)
      else if position_size (risk cfg) 1 (composite_signal ctx) = 0 then Inr (SignalTooWeak, rm)
      else trade_from_side cfg env snapshot (composite_signal ctx)
             (position_size (risk cfg) 1 (composite_signal ctx)) rm)"
  by (simp add: trade_def trade_from_side_def Let_def)

lemma trade_from_side_Traded:
  assumes "trade_from_side cfg env snapshot sig psize rm = Inr (Traded lg, rm')"
  shows "side (order (report lg)) = (if sig > 0 then ''BUY'' else ''SELL'')"
proof -
  from assms obtain prc where
    p: "py_getitem (prices snapshot) (- 1) = Inr prc"
    by (cases "py_getitem (prices snapshot) (- 1)")
       (simp_all add: trade_from_side_def Let_def bind_err_def)
  from assms p obtain qty where
    q: "py_div psize prc = Inr qty"
    by (cases "py_div psize prc") (simp_all add: trade_from_side_def Let_def bind_err_def)
  from assms p q have
    "report lg = send_order (execution cfg) (dry_run cfg) (snap_symbol snapshot)
                   (if sig > 0 then ''BUY'' else ''SELL'') qty prc
                   (clock_order env) (draw_fill env) (draw_slippage env)"
    by (auto simp: trade_from_side_def Let_def bind_err_def)
  then show ?thesis by (simp only: send_order_order Order.simps)
qed

lemma trade_from_side_example_zero:
  "trade_from_side default_agent_config example_env example_snapshot 0 0.03 (init_risk 0)
   = Inr (Traded
           \<lparr>report =
              \<lparr>order = \<lparr>symbol = ''BTCUSDT'', side = ''SELL'', quantity = 0.0003, price = 100,
                         ord_type = ''limit'', timestamp = 300000001\<rparr>,
               status = ''PARTIALLY_FILLED'', executed_quantity = 0.00027,
               avg_price = 99.95\<rparr>,
            recorded_size = 0.027, recorded_price = 99.95, stops_entry = 99.95,
            stops = \<lparr>sl_take_profit = 104.9475, sl_stop_loss = 97.951\<rparr>\<rparr>,
          \<lparr>position = \<lparr>size_pos = 0.027, entry_price = 99.95, last_trade_time = 300000002\<rparr>,
           peak_equity = 1\<rparr>)"
  by (simp add: trade_from_side_def trade_eval_defs)

text \<open>
  C8. Whenever a cycle sends an order, its side is BUY if the composite signal is
  positive and SELL otherwise, and the cycle has passed \<^verbatim>\<open>can_trade\<close> with a position
  size that is not 0. The cycle reaches the choice of the side exactly when it passes
  these two tests, and from there on every order it sends is BUY for a positive signal
  and SELL otherwise, whatever the position size: a signal of exactly 0 at the choice of
  the side gives a SELL order.
\<close>

theorem trade_side_from_signal:
  "(trade cfg env snapshot ctx rm = Inr (Traded lg, rm') \<longrightarrow>
      side (order (report lg)) = (if composite_signal ctx > 0 then ''BUY'' else ''SELL'')
      \<and> can_trade (risk cfg) None (clock_can_trade env) rm
      \<and> position_size (risk cfg) 1 (composite_signal ctx) \<noteq> 0)
   \<and> trade cfg env snapshot ctx rm =
       (if \<not> can_trade (risk cfg) None (clock_can_trade env) rm then Inr (CooldownActive, rm)
        else if position_size (risk cfg) 1 (composite_signal ctx) = 0
          then Inr (SignalTooWeak, rm)
        else trade_from_side cfg env snapshot (composite_signal ctx)
               (position_size (risk cfg) 1 (composite_signal ctx)) rm)
   \<and> (trade_from_side cfg env snapshot sig psize rm = Inr (Traded lg2, rm2) \<longrightarrow>
        side (order (report lg2)) = (if sig > 0 then ''BUY'' else ''SELL''))
   \<and> (trade_from_side cfg env snapshot 0 psize rm = Inr (Traded lg0, rm0) \<longrightarrow>
        side (order (report lg0)) = ''SELL'')"
proof (intro conjI impI)
  assume sent: "trade cfg env snapshot ctx rm = Inr (Traded lg, rm')"
  from trade_Traded [OF sent] obtain prc qty rep where
    ct: "can_trade (risk cfg) None (clock_can_trade env) rm"
    and nz: "position_size (risk cfg) 1 (composite_signal ctx) \<noteq> 0"
    and rep: "rep = send_order (execution cfg) (dry_run cfg) (snap_symbol snapshot)
                   (if composite_signal ctx > 0 then ''BUY'' else ''SELL'') qty prc
                   (clock_order env) (draw_fill env) (draw_slippage env)"
    and lg: "lg = \<lparr>report = rep, recorded_size = executed_quantity rep * prc,
                   recorded_price = avg_price rep, stops_entry = avg_price rep,
                   stops = stop_levels (risk cfg) (avg_price rep)\<rparr>"
    by blast
  have "side (order rep) = (if composite_signal ctx > 0 then ''BUY'' else ''SELL'')"
    unfolding rep send_order_order by simp
  then show "side (order (report lg)) = (if composite_signal ctx > 0 then ''BUY'' else ''SELL'')"
    by (simp add: lg)
  show "can_trade (risk cfg) None (clock_can_trade env) rm" by (rule ct)
  show "position_size (risk cfg) 1 (composite_signal ctx) \<noteq> 0" by (rule nz)
next
  show "trade cfg env snapshot ctx rm =
       (if \<not> can_trade (risk cfg) None (clock_can_trade env) rm then Inr (CooldownActive, rm)
        else if position_size (risk cfg) 1 (composite_signal ctx) = 0
          then Inr (SignalTooWeak, rm)
        else trade_from_side cfg env snapshot (composite_signal ctx)
               (position_size (risk cfg) 1 (composite_signal ctx)) rm)"
    by (rule trade_reaches_side)
next
  assume "trade_from_side cfg env snapshot sig psize rm = Inr (Traded lg2, rm2)"
  then show "side (order (report lg2)) = (if sig > 0 then ''BUY'' else ''SELL'')"
    by (rule trade_from_side_Traded)
next
  assume "trade_from_side cfg env snapshot 0 psize rm = Inr (Traded lg0, rm0)"
  from trade_from_side_Traded [OF this] show "side (order (report lg0)) = ''SELL''"
    by simp
qed

theorem trade_side_from_signal_witness:
  "composite_signal (example_context 0.4) = 0.2
   \<and> (\<exists>lg rm'. trade default_agent_config example_env example_snapshot (example_context 0.4)
                   (init_risk 0) = Inr (Traded lg, rm')
                 \<and> side (order (report lg)) = ''BUY'')
   \<and> composite_signal (example_context (- 0.4)) = - 0.2
   \<and> (\<exists>lg rm'. trade default_agent_config example_env example_snapshot
                   (example_context (- 0.4)) (init_risk 0) = Inr (Traded lg, rm')
                 \<and> side (order (report lg)) = ''SELL'')
   \<and> (\<exists>lg rm'. trade_from_side default_agent_config example_env example_snapshot 0 0.03
                   (init_risk 0) = Inr (Traded lg, rm')
                 \<and> side (order (report lg)) = ''SELL'')"
proof -
  have sent: "side (order (report lg)) = (if composite_signal ctx > 0 then ''BUY'' else ''SELL'')"
    if "trade cfg env snapshot ctx rm = Inr (Traded lg, rm')" for cfg env snapshot ctx rm lg rm'
    using trade_side_from_signal [where cfg = cfg and env = env and snapshot = snapshot
        and ctx = ctx and rm = rm and lg = lg and rm' = rm'] that
    by blast
  have at_zero: "side (order (report lg)) = ''SELL''"
    if "trade_from_side cfg env snapshot 0 psize rm = Inr (Traded lg, rm')"
    for cfg env snapshot psize rm lg rm'
    using trade_side_from_signal [where cfg = cfg and env = env and snapshot = snapshot
        and psize = psize and rm = rm and lg0 = lg and rm0 = rm'] that
    by blast
  have pos: "composite_signal (example_context 0.4) = 0.2"
    and neg: "composite_signal (example_context (- 0.4)) = - 0.2"
    by (simp_all add: composite_signal_def example_context_def)
  have buy: "\<exists>lg rm'. trade default_agent_config example_env example_snapshot
               (example_context 0.4) (init_risk 0) = Inr (Traded lg, rm')
             \<and> side (order (report lg)) = ''BUY''"
    using sent [OF trade_example_buy] trade_example_buy pos by simp
  have sell: "\<exists>lg rm'. trade default_agent_config example_env example_snapshot
               (example_context (- 0.4)) (init_risk 0) = Inr (Traded lg, rm')
             \<and> side (order (report lg)) = ''SELL''"
    using sent [OF trade_example_sell] trade_example_sell neg by simp
  have zero: "\<exists>lg rm'. trade_from_side default_agent_config example_env example_snapshot 0 0.03
               (init_risk 0) = Inr (Traded lg, rm')
             \<and> side (order (report lg)) = ''SELL''"
    using at_zero [OF trade_from_side_example_zero] trade_from_side_example_zero by simp
  from pos buy neg sell zero show ?thesis by blast
qed

text \<open>
  In this model a signal of exactly 0 gives a position size of 0, so a cycle that starts
  at \<^verbatim>\<open>trade\<close> with such a signal returns before it chooses a side.
\<close>

lemma trade_zero_signal:
  assumes "composite_signal ctx = 0"
  shows "trade cfg env snapshot ctx rm = Inr (CooldownActive, rm)
       \<or> trade cfg env snapshot ctx rm = Inr (SignalTooWeak, rm)"
  using assms by (simp add: trade_def position_size_def Let_def)

section \<open>Average true range on short input\<close>

lemma py_getitem_zero:
  "py_getitem xs 0 = (case xs of [] \<Rightarrow> Inl IndexError | x # _ \<Rightarrow> Inr x)"
  by (cases xs) (simp_all add: py_getitem_def py_index_def)

lemma py_setitem_beyond:
  assumes "int (length xs) \<le> i"
  shows "py_setitem xs i v = Inl IndexError"
  using assms by (simp add: py_setitem_def py_index_def)

lemma bind_err_simps:
  "bind_err (Inr x) f = f x"
  "bind_err (Inl e) f = Inl e"
  by (simp_all add: bind_err_def)

lemma average_true_range_short:
  assumes per: "0 < period"
    and len: "length hs = n" "length ls = n" "length cs = n"
    and short: "int n < period"
  shows "average_true_range hs ls cs period = Inl IndexError"
proof -
  have g1: "(length hs = length ls \<and> length ls = length cs) = True"
    using len by simp
  have g2: "\<not> period \<le> 0"
    using per by simp
  show ?thesis
  proof (cases hs)
    case Nil
    then have "py_getitem hs 0 = Inl IndexError"
      by (simp add: py_getitem_zero)
    then show ?thesis
      by (simp only: average_true_range_def g1 g2 bind_err_simps not_True_eq_False if_False
          simp_thms)
  next
    case (Cons h hs0)
    with len obtain l ls0 where lows: "ls = l # ls0"
      by (cases ls) auto
    have gh: "py_getitem hs 0 = Inr h"
      by (simp add: Cons py_getitem_zero)
    have gl: "py_getitem ls 0 = Inr l"
      by (simp add: lows py_getitem_zero)
    have seed: "py_div x (of_int period) = Inr (x / of_int period)" for x
      using per by (simp add: py_div_def)
    have store: "py_setitem (replicate (length hs) None) (period - 1) v = Inl IndexError"
      for v :: "real option"
      using short len by (intro py_setitem_beyond) simp
    show ?thesis
      by (simp only: average_true_range_def g1 g2 gh gl bind_err_simps Let_def seed store
          not_True_eq_False if_False simp_thms)
  qed
qed

text \<open>
  C9. For a positive period and three series of one length \<open>n\<close> below the period,
  \<^verbatim>\<open>average_true_range\<close> raises IndexError, not ValueError: for \<open>n = 0\<close> at the read of
  \<^verbatim>\<open>highs[0]\<close>, and for \<open>0 < n\<close> at the assignment of the seed to index
  \<open>period - 1\<close>. The recommendation builder, which catches ValueError only, lets it
  through.
\<close>

theorem average_true_range_short_input:
  assumes "0 < period"
    and "length hs = n" "length ls = n" "length cs = n"
    and "int n < period"
  shows "average_true_range hs ls cs period = Inl IndexError
       \<and> (n = 0 \<longrightarrow> py_getitem hs 0 = Inl IndexError)
       \<and> (0 < n \<longrightarrow>
            py_getitem hs 0 = Inr (hd hs) \<and> py_getitem ls 0 = Inr (hd ls)
            \<and> py_setitem (replicate n None) (period - 1) (v :: real option) = Inl IndexError)
       \<and> (period = 14 \<and> highs snapshot = hs \<and> lows snapshot = ls
            \<and> closes snapshot = cs \<longrightarrow>
            build_recommendation_atr snapshot = Inl IndexError)"
proof (intro conjI impI)
  show atr: "average_true_range hs ls cs period = Inl IndexError"
    using assms by (rule average_true_range_short)
  show "py_getitem hs 0 = Inl IndexError" if "n = 0"
    using that assms(2) by (simp add: py_getitem_zero)
  show "py_getitem hs 0 = Inr (hd hs)" if "0 < n"
    using that assms(2) by (cases hs) (simp_all add: py_getitem_zero)
  show "py_getitem ls 0 = Inr (hd ls)" if "0 < n"
    using that assms(3) by (cases ls) (simp_all add: py_getitem_zero)
  show "py_setitem (replicate n None) (period - 1) v = Inl IndexError" if "0 < n"
    using assms(5) by (intro py_setitem_beyond) simp
  show "build_recommendation_atr snapshot = Inl IndexError"
    if "period = 14 \<and> highs snapshot = hs \<and> lows snapshot = ls \<and> closes snapshot = cs"
    using that atr by (simp add: build_recommendation_atr_def)
qed

theorem average_true_range_short_input_witness:
  "average_true_range [2, 3, 4] [1, 2, 3] [1.5, 2.5, 3.5] 14 = Inl IndexError
   \<and> py_setitem (replicate 3 None) (14 - 1) (Some (1::real)) = Inl IndexError
   \<and> build_recommendation_atr example_snapshot = Inl IndexError
   \<and> average_true_range [] [] [] 14 = Inl IndexError
   \<and> py_getitem ([]::real list) 0 = Inl IndexError"
  using average_true_range_short_input [where period = 14 and hs = "[2, 3, 4]"
      and ls = "[1, 2, 3]" and cs = "[1.5, 2.5, 3.5]" and n = 3 and v = "Some 1"
      and snapshot = example_snapshot]
    average_true_range_short_input [where period = 14 and hs = "highs example_snapshot"
      and ls = "lows example_snapshot" and cs = "closes example_snapshot" and n = 2
      and snapshot = example_snapshot and v = None]
    average_true_range_short_input [where period = 14 and hs = "[]"
      and ls = "[]" and cs = "[]" and n = 0
      and snapshot = example_snapshot and v = None]
  by (simp add: example_snapshot_def)

section \<open>Bounds of the relative strength index\<close>

text \<open>
  The smoothed averages stay non-negative: the gains and losses are non-negative, the
  seeds are means of them, and each pass of the loop takes a weighted mean with
  non-negative weights. With non-negative averages \<^verbatim>\<open>compute_rsi\<close> returns a value in
  \<open>[0, 100]\<close>.
\<close>

lemma compute_rsi_bounds:
  assumes "0 \<le> g" "0 \<le> l"
  shows "\<exists>r. compute_rsi g l = Inr r \<and> 0 \<le> r \<and> r \<le> 100"
proof (cases "l = 0")
  case True
  then show ?thesis by (simp add: compute_rsi_def)
next
  case False
  with assms have lpos: "0 < l" by simp
  define rs where "rs = g / l"
  have rs: "0 \<le> rs" using assms lpos by (simp add: rs_def)
  then have pos: "0 < 1 + rs" by simp
  have q1: "100 / (1 + rs) \<le> 100"
    using rs by (simp add: divide_le_eq)
  have q0: "0 \<le> 100 / (1 + rs)"
    using pos by simp
  have "compute_rsi g l = Inr (100 - 100 / (1 + rs))"
    using False pos by (simp add: compute_rsi_def py_div_def bind_err_simps rs_def)
  with q0 q1 show ?thesis by simp
qed

lemma rsi_gains_nonneg: "\<forall>x\<in>set (rsi_gains vs). 0 \<le> x"
  by (auto simp: rsi_gains_def)

lemma rsi_losses_nonneg: "\<forall>x\<in>set (rsi_losses vs). 0 \<le> x"
  by (auto simp: rsi_losses_def)

lemma length_rsi_gains:
  assumes "vs \<noteq> []"
  shows "length (rsi_gains vs) = length vs"
proof -
  from assms have "0 < length vs" by simp
  then show ?thesis by (simp add: rsi_gains_def)
qed

lemma length_rsi_losses:
  assumes "vs \<noteq> []"
  shows "length (rsi_losses vs) = length vs"
proof -
  from assms have "0 < length vs" by simp
  then show ?thesis by (simp add: rsi_losses_def)
qed

lemma smoothed_nonneg:
  fixes a x :: real
  assumes "0 < period" "0 \<le> a" "0 \<le> x"
  shows "\<exists>a'. py_div (a * of_int (period - 1) + x) (of_int period) = Inr a' \<and> 0 \<le> a'"
proof -
  have "0 \<le> a * of_int (period - 1)"
    using assms by (intro mult_nonneg_nonneg) simp_all
  with assms show ?thesis by (simp add: py_div_def)
qed

lemma py_setitem_inside:
  assumes "k < length xs"
  shows "py_setitem xs (int k) v = Inr (xs[k := v])"
  using assms by (simp add: py_setitem_def py_index_def)

lemma rsi_step_ok:
  assumes per: "0 < period"
    and gs: "\<forall>x\<in>set gains. 0 \<le> x" and ls: "\<forall>x\<in>set losses. 0 \<le> x"
    and k: "k < length gains" "k < length losses" "k < length rv"
    and avg: "0 \<le> g" "0 \<le> l"
  shows "\<exists>g' l' r. rsi_step period gains losses k (g, l, rv) = Inr (g', l', rv[k := Some r])
           \<and> 0 \<le> g' \<and> 0 \<le> l' \<and> 0 \<le> r \<and> r \<le> 100"
proof -
  from gs k have "0 \<le> gains ! k" by simp
  from smoothed_nonneg [OF per avg(1) this] obtain g' where
    g': "py_div (g * of_int (period - 1) + gains ! k) (of_int period) = Inr g'" "0 \<le> g'"
    by blast
  from ls k have "0 \<le> losses ! k" by simp
  from smoothed_nonneg [OF per avg(2) this] obtain l' where
    l': "py_div (l * of_int (period - 1) + losses ! k) (of_int period) = Inr l'" "0 \<le> l'"
    by blast
  from compute_rsi_bounds [OF g'(2) l'(2)] obtain r where
    r: "compute_rsi g' l' = Inr r" "0 \<le> r" "r \<le> 100"
    by blast
  have "rsi_step period gains losses k (g, l, rv) = Inr (g', l', rv[k := Some r])"
    by (simp only: rsi_step.simps g'(1) l'(1) r(1) py_setitem_inside [OF k(3)] bind_err_simps)
  with g'(2) l'(2) r(2,3) show ?thesis by blast
qed

lemma rsi_loop_ok:
  assumes per: "0 < period"
    and gs: "\<forall>x\<in>set gains. 0 \<le> x" and ls: "\<forall>x\<in>set losses. 0 \<le> x"
    and len: "length gains = n" "length losses = n"
  shows "length rv = n \<Longrightarrow> 0 \<le> g \<Longrightarrow> 0 \<le> l \<Longrightarrow>
         \<exists>g' l' rv'. rsi_loop period gains losses [k..<n] (g, l, rv) = Inr (g', l', rv')
           \<and> length rv' = n \<and> (\<forall>i<k. rv' ! i = rv ! i)
           \<and> (\<forall>i. k \<le> i \<and> i < n \<longrightarrow> (\<exists>r. rv' ! i = Some r \<and> 0 \<le> r \<and> r \<le> 100))"
proof (induction "n - k" arbitrary: k g l rv)
  case 0
  then have "[k..<n] = []" and "n \<le> k" by simp_all
  with 0 show ?case by auto
next
  case (Suc d)
  then have kn: "k < n" by simp
  then have upt: "[k..<n] = k # [Suc k..<n]" by (simp add: upt_conv_Cons)
  from rsi_step_ok [OF per gs ls, of k rv g l] kn len Suc.prems obtain g1 l1 r1 where
    step: "rsi_step period gains losses k (g, l, rv) = Inr (g1, l1, rv[k := Some r1])"
    and b1: "0 \<le> g1" "0 \<le> l1" "0 \<le> r1" "r1 \<le> 100"
    by auto
  have d: "d = n - Suc k" using Suc.hyps(2) by simp
  have len1: "length (rv[k := Some r1]) = n" using Suc.prems by simp
  from Suc.hyps(1) [OF d len1 b1(1) b1(2)] obtain g' l' rv' where
    loop: "rsi_loop period gains losses [Suc k..<n] (g1, l1, rv[k := Some r1]) = Inr (g', l', rv')"
    and len': "length rv' = n"
    and keep: "\<forall>i<Suc k. rv' ! i = rv[k := Some r1] ! i"
    and rest: "\<forall>i. Suc k \<le> i \<and> i < n \<longrightarrow> (\<exists>r. rv' ! i = Some r \<and> 0 \<le> r \<and> r \<le> 100)"
    by blast
  have run: "rsi_loop period gains losses [k..<n] (g, l, rv) = Inr (g', l', rv')"
    by (simp add: upt step loop del: rsi_step.simps)
  have at_k: "rv' ! k = Some r1"
    using keep kn Suc.prems(1) by simp
  have before: "\<forall>i<k. rv' ! i = rv ! i"
    using keep by simp
  have from_k: "\<exists>r. rv' ! i = Some r \<and> 0 \<le> r \<and> r \<le> 100" if "k \<le> i \<and> i < n" for i
  proof (cases "i = k")
    case True
    with at_k b1 show ?thesis by simp
  next
    case False
    with that have "Suc k \<le> i \<and> i < n" by simp
    with rest show ?thesis by blast
  qed
  from run len' before from_k show ?case by blast
qed

lemma seed_nonneg:
  fixes xs :: "real list"
  assumes "\<forall>x\<in>set xs. 0 \<le> x" "0 < period"
  shows "\<exists>a. py_div (sum_list (take (nat period) (drop 1 xs))) (of_int period) = Inr a \<and> 0 \<le> a"
proof -
  have "set (take (nat period) (drop 1 xs)) \<subseteq> set xs"
    using set_take_subset set_drop_subset by fast
  with assms(1) have "0 \<le> sum_list (take (nat period) (drop 1 xs))"
    by (intro sum_list_nonneg) blast
  with assms(2) show ?thesis by (simp add: py_div_def)
qed

lemma relative_strength_index_example:
  "relative_strength_index [1, 2, 3, 2] 2 = Inr [None, None, Some 100, Some 50]"
  by (simp add: relative_strength_index_def rsi_gains_def rsi_losses_def compute_rsi_def
      py_div_def py_setitem_def py_index_def bind_err_simps upt_conv_Cons Let_def)

text \<open>
  C3. For every period above 0 and every input of at least \<open>period + 1\<close> values,
  \<^verbatim>\<open>relative_strength_index\<close> returns a series as long as its input whose entries
  before index \<open>period\<close> are undefined and whose entries from index \<open>period\<close> on are
  defined and lie in \<open>[0, 100]\<close>.
\<close>

theorem relative_strength_index_bounds:
  assumes per: "0 < period" and enough: "period + 1 \<le> int (length values)"
  shows "\<exists>rs. relative_strength_index values period = Inr rs \<and> length rs = length values
           \<and> (\<forall>i<length values.
                 (int i < period \<longrightarrow> rs ! i = None)
               \<and> (period \<le> int i \<longrightarrow> (\<exists>r. rs ! i = Some r \<and> 0 \<le> r \<and> r \<le> 100)))"
proof -
  define n where "n = length values"
  define p where "p = nat period"
  have period: "period = int p" using per by (simp add: p_def)
  have pn: "p < n" using enough per by (simp add: p_def n_def)
  have ne: "values \<noteq> []" using pn by (auto simp: n_def)
  let ?gains = "rsi_gains values" and ?losses = "rsi_losses values"
  have len: "length ?gains = n" "length ?losses = n"
    using ne by (simp_all add: length_rsi_gains length_rsi_losses n_def)
  from seed_nonneg [OF rsi_gains_nonneg per] obtain g0 where
    g0: "py_div (sum_list (take (nat period) (drop 1 ?gains))) (of_int period) = Inr g0" "0 \<le> g0"
    by blast
  from seed_nonneg [OF rsi_losses_nonneg per] obtain l0 where
    l0: "py_div (sum_list (take (nat period) (drop 1 ?losses))) (of_int period) = Inr l0" "0 \<le> l0"
    by blast
  from compute_rsi_bounds [OF g0(2) l0(2)] obtain r0 where
    r0: "compute_rsi g0 l0 = Inr r0" "0 \<le> r0" "r0 \<le> 100"
    by blast
  define rv0 where "rv0 = (replicate n (None :: real option))[p := Some r0]"
  have store: "py_setitem (replicate n None) period (Some r0) = Inr rv0"
    unfolding period rv0_def using pn by (intro py_setitem_inside) simp
  have len0: "length rv0 = n" by (simp add: rv0_def)
  from rsi_loop_ok [OF per rsi_gains_nonneg rsi_losses_nonneg len len0 g0(2) l0(2), of "Suc p"]
  obtain g' l' rv' where
    loop: "rsi_loop period ?gains ?losses [Suc p..<n] (g0, l0, rv0) = Inr (g', l', rv')"
    and len': "length rv' = n"
    and keep: "\<forall>i<Suc p. rv' ! i = rv0 ! i"
    and rest: "\<forall>i. Suc p \<le> i \<and> i < n \<longrightarrow> (\<exists>r. rv' ! i = Some r \<and> 0 \<le> r \<and> r \<le> 100)"
    by blast
  have start: "nat (period + 1) = Suc p" using per by (simp add: p_def)
  have g1: "\<not> period \<le> 0" using per by simp
  have g2: "\<not> int n < period + 1" using enough by (simp add: n_def)
  have result: "relative_strength_index values period = Inr rv'"
    by (simp only: relative_strength_index_def g1 g2 if_False Let_def g0(1) l0(1) r0(1) store
        start n_def [symmetric] loop bind_err_simps prod.case)
  have low: "rv' ! i = None" if "i < p" for i
    using keep that pn by (simp add: rv0_def)
  have high: "\<exists>r. rv' ! i = Some r \<and> 0 \<le> r \<and> r \<le> 100" if "p \<le> i" "i < n" for i
  proof (cases "i = p")
    case True
    with keep pn r0 show ?thesis by (simp add: rv0_def)
  next
    case False
    with that rest show ?thesis by simp
  qed
  show ?thesis
    using result len' low high unfolding period n_def [symmetric] by auto
qed

theorem relative_strength_index_bounds_witness:
  "(0::int) < 2 \<and> (2::int) + 1 \<le> int (length [1, 2, 3, 2 :: real])
   \<and> relative_strength_index [1, 2, 3, 2] 2 = Inr [None, None, Some 100, Some 50]
   \<and> (\<exists>rs. relative_strength_index [1, 2, 3, 2] 2 = Inr rs \<and> length rs = 4
         \<and> rs ! 1 = None
         \<and> (\<exists>r. rs ! 3 = Some r \<and> 0 \<le> r \<and> r \<le> 100))"
  using relative_strength_index_bounds [of 2 "[1, 2, 3, 2]"] relative_strength_index_example
  by simp

section \<open>Bounds of the aggregated sentiment\<close>

lemma exponential_smoothing_bounds:
  assumes a: "0 \<le> alpha" "alpha \<le> 1"
    and p: "- 1 \<le> previous" "previous \<le> 1"
    and c: "- 1 \<le> current" "current \<le> 1"
  shows "- 1 \<le> exponential_smoothing previous current alpha"
    and "exponential_smoothing previous current alpha \<le> 1"
proof -
  have b: "0 \<le> 1 - alpha" using a by simp
  have "alpha * current \<le> alpha * 1" using a c by (intro mult_left_mono) simp_all
  moreover have "(1 - alpha) * previous \<le> (1 - alpha) * 1"
    using b p by (intro mult_left_mono) simp_all
  ultimately show "exponential_smoothing previous current alpha \<le> 1"
    by (simp add: exponential_smoothing_def)
  have "alpha * (- 1) \<le> alpha * current" using a c by (intro mult_left_mono) simp_all
  moreover have "(1 - alpha) * (- 1) \<le> (1 - alpha) * previous"
    using b p by (intro mult_left_mono) simp_all
  ultimately show "- 1 \<le> exponential_smoothing previous current alpha"
    by (simp add: exponential_smoothing_def)
qed

lemma update_values: "snd ` set (AList.update k v al) \<subseteq> insert v (snd ` set al)"
  by (induction al) auto

lemma sentiment_step_bounds:
  assumes a: "0 \<le> alpha" "alpha \<le> 1"
    and r: "- 1 \<le> score reading" "score reading \<le> 1"
    and d: "\<forall>x\<in>snd ` set d. - 1 \<le> x \<and> x \<le> 1"
  shows "\<forall>x\<in>snd ` set (sentiment_step alpha d reading). - 1 \<le> x \<and> x \<le> 1"
proof -
  define prev where "prev = (case map_of d (source reading) of Some p \<Rightarrow> p | None \<Rightarrow> 0)"
  have pb: "- 1 \<le> prev \<and> prev \<le> 1"
  proof (cases "map_of d (source reading)")
    case None
    then show ?thesis by (simp add: prev_def)
  next
    case (Some x)
    then have "(source reading, x) \<in> set d" by (rule map_of_SomeD)
    then have "x \<in> snd ` set d" by force
    with d have "- 1 \<le> x \<and> x \<le> 1" by blast
    with Some show ?thesis by (simp add: prev_def)
  qed
  define v where "v = exponential_smoothing prev (score reading) alpha"
  have vb: "- 1 \<le> v \<and> v \<le> 1"
    using exponential_smoothing_bounds [OF a _ _ r, of prev] pb by (simp add: v_def)
  have eq: "sentiment_step alpha d reading = AList.update (source reading) v d"
    by (simp add: sentiment_step_def prev_def v_def)
  have "\<forall>x\<in>insert v (snd ` set d). - 1 \<le> x \<and> x \<le> 1"
    using vb d by blast
  with update_values [of "source reading" v d]
  have "\<forall>x\<in>snd ` set (AList.update (source reading) v d). - 1 \<le> x \<and> x \<le> 1"
    by blast
  then show ?thesis by (simp only: eq)
qed

lemma sentiment_fold_bounds:
  assumes a: "0 \<le> alpha" "alpha \<le> 1"
  shows "\<forall>r\<in>set readings. - 1 \<le> score r \<and> score r \<le> 1 \<Longrightarrow>
         \<forall>x\<in>snd ` set d. - 1 \<le> x \<and> x \<le> 1 \<Longrightarrow>
         \<forall>x\<in>snd ` set (foldl (sentiment_step alpha) d readings). - 1 \<le> x \<and> x \<le> 1"
proof (induction readings arbitrary: d)
  case Nil
  then show ?case by simp
next
  case (Cons r rs)
  from Cons.prems(1) have r: "- 1 \<le> score r" "score r \<le> 1" by simp_all
  have "\<forall>x\<in>snd ` set (sentiment_step alpha d r). - 1 \<le> x \<and> x \<le> 1"
    by (rule sentiment_step_bounds [OF a r Cons.prems(2)])
  with Cons.IH [of "sentiment_step alpha d r"] Cons.prems(1) show ?case by simp
qed

lemma sum_list_between:
  fixes xs :: "real list"
  assumes "\<forall>x\<in>set xs. - 1 \<le> x \<and> x \<le> 1"
  shows "- real (length xs) \<le> sum_list xs \<and> sum_list xs \<le> real (length xs)"
  using assms by (induction xs) auto

lemma mean_between:
  fixes xs :: "real list"
  assumes "xs \<noteq> []" "\<forall>x\<in>set xs. - 1 \<le> x \<and> x \<le> 1"
  shows "\<exists>m. py_div (sum_list xs) (real (length xs)) = Inr m \<and> - 1 \<le> m \<and> m \<le> 1"
proof -
  have pos: "0 < real (length xs)" using assms(1) by simp
  from sum_list_between [OF assms(2)] pos
  have "- 1 \<le> sum_list xs / real (length xs)" "sum_list xs / real (length xs) \<le> 1"
    by (simp_all add: pos_le_divide_eq pos_divide_le_eq)
  with pos show ?thesis by (simp add: py_div_def)
qed

lemma aggregate_sentiment_example:
  "aggregate_sentiment
     [\<lparr>source = ''twitter'', score = 1\<rparr>, \<lparr>source = ''news'', score = - 1\<rparr>,
      \<lparr>source = ''twitter'', score = 1\<rparr>] 0.5 = Inr 0.125"
  by (simp add: aggregate_sentiment_def sentiment_step_def exponential_smoothing_def
      py_div_def Let_def)

text \<open>
  C10. For readings with scores in \<open>[-1, 1]\<close> and a smoothing factor in \<open>[0, 1]\<close>,
  \<^verbatim>\<open>aggregate_sentiment\<close> returns a value in \<open>[-1, 1]\<close>, and so is every smoothed
  state of a source that the mean is taken over.
\<close>

theorem aggregate_sentiment_bounded:
  assumes "0 \<le> alpha" "alpha \<le> 1"
    and "\<forall>r\<in>set readings. - 1 \<le> score r \<and> score r \<le> 1"
  shows "(\<exists>v. aggregate_sentiment readings alpha = Inr v \<and> - 1 \<le> v \<and> v \<le> 1)
       \<and> (\<forall>x\<in>snd ` set (foldl (sentiment_step alpha) [] readings). - 1 \<le> x \<and> x \<le> 1)"
proof -
  let ?d = "foldl (sentiment_step alpha) [] readings"
  have states: "\<forall>x\<in>snd ` set ?d. - 1 \<le> x \<and> x \<le> 1"
    using sentiment_fold_bounds [OF assms(1,2,3), of "[]"] by simp
  have "\<exists>v. aggregate_sentiment readings alpha = Inr v \<and> - 1 \<le> v \<and> v \<le> 1"
  proof (cases "?d = []")
    case True
    then show ?thesis by (simp add: aggregate_sentiment_def)
  next
    case False
    then have "map snd ?d \<noteq> []" by simp
    moreover have "\<forall>x\<in>set (map snd ?d). - 1 \<le> x \<and> x \<le> 1"
      using states by simp
    ultimately obtain m where
      "py_div (sum_list (map snd ?d)) (real (length (map snd ?d))) = Inr m" "- 1 \<le> m" "m \<le> 1"
      using mean_between by blast
    with False show ?thesis by (simp add: aggregate_sentiment_def)
  qed
  with states show ?thesis by blast
qed

theorem aggregate_sentiment_bounded_witness:
  "(0::real) \<le> 0.5 \<and> (0.5::real) \<le> 1
   \<and> aggregate_sentiment
     [\<lparr>source = ''twitter'', score = 1\<rparr>, \<lparr>source = ''news'', score = - 1\<rparr>,
      \<lparr>source = ''twitter'', score = 1\<rparr>] 0.5 = Inr 0.125
   \<and> - 1 \<le> (0.125::real) \<and> (0.125::real) \<le> 1"
  using aggregate_sentiment_bounded [of "0.5"
      "[\<lparr>source = ''twitter'', score = 1\<rparr>, \<lparr>source = ''news'', score = - 1\<rparr>,
        \<lparr>source = ''twitter'', score = 1\<rparr>]"]
    aggregate_sentiment_example
  by simp

end
